theory Spec2Isabelle
  imports Complex_Main
begin

section \<open>The customer page (src/pages/index.tsx)\<close>

text \<open>
  The page component \<open>Home\<close> holds four pieces of React state, one \<open>useSWR\<close> subscription
  for the customer list, and three handlers. The handlers are modelled as functions from the
  state captured by the render (the closure) and the answer of the network to the ordered
  list of effects they perform: calls of the state setters, of \<open>fetch\<close> and of \<open>mutate\<close>.
  The state after a handler is the captured state with the setter calls applied in order.
\<close>

subsection \<open>JavaScript values\<close>

text \<open>
  What \<open>response.json()\<close> can produce, what a promise can reject with, and what \<open>catch\<close>
  can receive. A number is a double: finite doubles are rationals (\<open>-0\<close> is \<open>Finite 0\<close>).
  An object is the list of its own properties in source order; \<open>JSON.parse\<close> keeps the last
  of two properties with one key. \<open>JError m\<close> is an instance of \<open>Error\<close> (or a subclass:
  \<open>TypeError\<close>, \<open>SyntaxError\<close>) whose \<open>message\<close> is \<open>m\<close>.
\<close>

datatype js_number = Finite rat | PosInfinity | NegInfinity | NaN

datatype js =
    JUndefined
  | JNull
  | JBool bool
  | JNum js_number
  | JStr string
  | JArr "js list"
  | JObj "(string \<times> js) list"
  | JError string

text \<open>Truthiness, as \<open>!x\<close>, \<open>x || y\<close> and \<open>x && y\<close> test it.\<close>

fun truthy :: "js \<Rightarrow> bool" where
  "truthy JUndefined = False"
| "truthy JNull = False"
| "truthy (JBool b) = b"
| "truthy (JNum (Finite q)) = (q \<noteq> 0)"
| "truthy (JNum NaN) = False"
| "truthy (JNum PosInfinity) = True"
| "truthy (JNum NegInfinity) = True"
| "truthy (JStr s) = (s \<noteq> [])"
| "truthy (JArr xs) = True"
| "truthy (JObj kvs) = True"
| "truthy (JError m) = True"

text \<open>\<open>err instanceof Error\<close>.\<close>

fun instanceof_Error :: "js \<Rightarrow> bool" where
  "instanceof_Error (JError m) = True"
| "instanceof_Error v = False"

text \<open>
  What the source leaves to the JavaScript engine: the wording of the \<open>TypeError\<close> raised
  by reading a property of \<open>null\<close> or \<open>undefined\<close>, and \<open>ToString\<close> of a number, an array,
  an object or an error (which may itself throw). Every result below holds for every runtime.
\<close>

record runtime =
  nullish_read :: "js \<Rightarrow> string"
  to_primitive_string :: "js \<Rightarrow> js + string"

text \<open>
  The property read \<open>v.message\<close>: it throws on \<open>null\<close> and \<open>undefined\<close>, reads the own
  property of an object (the prototypes of objects, arrays and primitives have no
  \<open>message\<close>), and the message of an error.
\<close>

fun get_message :: "runtime \<Rightarrow> js \<Rightarrow> js + js" where
  "get_message rt JUndefined = Inl (JError (nullish_read rt JUndefined))"
| "get_message rt JNull = Inl (JError (nullish_read rt JNull))"
| "get_message rt (JObj kvs) =
     Inr (case map_of (rev kvs) ''message'' of Some v \<Rightarrow> v | None \<Rightarrow> JUndefined)"
| "get_message rt (JError m) = Inr (JStr m)"
| "get_message rt v = Inr JUndefined"

text \<open>\<open>ToString\<close>: fixed on primitives other than numbers, the runtime's elsewhere.\<close>

fun js_to_string :: "runtime \<Rightarrow> js \<Rightarrow> js + string" where
  "js_to_string rt (JStr s) = Inr s"
| "js_to_string rt JUndefined = Inr ''undefined''"
| "js_to_string rt JNull = Inr ''null''"
| "js_to_string rt (JBool b) = Inr (if b then ''true'' else ''false'')"
| "js_to_string rt v = to_primitive_string rt v"

text \<open>
  \<open>new Error(x)\<close>: the message is \<open>ToString(x)\<close> unless \<open>x\<close> is \<open>undefined\<close>, where the
  error has no message of its own and reads the prototype's empty one.
\<close>

definition new_Error :: "runtime \<Rightarrow> js \<Rightarrow> js + js" where
  "new_Error rt x =
     (if x = JUndefined then Inr (JError [])
      else case js_to_string rt x of Inl thrown \<Rightarrow> Inl thrown | Inr s \<Rightarrow> Inr (JError s))"

subsection \<open>Promises and responses\<close>

text \<open>
  How an awaited promise ends: with a value, with a rejection, or never. A response is its
  status and what \<open>response.json()\<close> settles to; \<open>response.ok\<close> is a status from 200 to 299.
\<close>

datatype 'a promise = Fulfilled 'a | Rejected js | Pending

record response =
  status :: nat
  json :: "js promise"

definition response_ok :: "response \<Rightarrow> bool" where
  "response_ok r = (200 \<le> status r \<and> status r \<le> 299)"

subsection \<open>State and effects\<close>

record Customer =
  firstName :: string
  lastName :: string
  email :: string

text \<open>The four \<open>useState\<close> cells of \<open>Home\<close>.\<close>

record home_state =
  isModalOpen :: bool
  isSubmitting :: bool
  submitError :: "string option"
  newCustomer :: Customer

text \<open>
  \<open>Fetch url method body\<close> is the call \<open>fetch(url, {method, body: JSON.stringify(body)})\<close>;
  \<open>FetchResolved r\<close> and \<open>FetchRejected e\<close> mark the point where the awaited call settles and
  the handler resumes; \<open>Mutate key\<close> is the call \<open>mutate(key)\<close> of swr.
\<close>

datatype effect =
    SetIsModalOpen bool
  | SetIsSubmitting bool
  | SetSubmitError "string option"
  | SetNewCustomer Customer
  | Fetch string string Customer
  | FetchResolved response
  | FetchRejected js
  | Mutate string

fun apply_effect :: "effect \<Rightarrow> home_state \<Rightarrow> home_state" where
  "apply_effect (SetIsModalOpen b) st = st\<lparr>isModalOpen := b\<rparr>"
| "apply_effect (SetIsSubmitting b) st = st\<lparr>isSubmitting := b\<rparr>"
| "apply_effect (SetSubmitError e) st = st\<lparr>submitError := e\<rparr>"
| "apply_effect (SetNewCustomer c) st = st\<lparr>newCustomer := c\<rparr>"
| "apply_effect (Fetch url method body) st = st"
| "apply_effect (FetchResolved r) st = st"
| "apply_effect (FetchRejected e) st = st"
| "apply_effect (Mutate key) st = st"

definition run_effects :: "effect list \<Rightarrow> home_state \<Rightarrow> home_state" where
  "run_effects es st = fold apply_effect es st"

subsection \<open>The handlers\<close>

text \<open>
  \<open>handleInputChange\<close> (lines 64-67): \<open>setNewCustomer({ ...newCustomer, [name]: value })\<close>
  with \<open>name\<close> and \<open>value\<close> read from the input element. The three text fields of the dialog
  are named \<open>firstName\<close>, \<open>lastName\<close> and \<open>email\<close>; under any other name the three fields of
  the copy are those of \<open>newCustomer\<close>.
\<close>

definition handleInputChange :: "home_state \<Rightarrow> string \<Rightarrow> string \<Rightarrow> effect list" where
  "handleInputChange st name val =
     [SetNewCustomer
        (if name = ''firstName'' then (newCustomer st)\<lparr>firstName := val\<rparr>
         else if name = ''lastName'' then (newCustomer st)\<lparr>lastName := val\<rparr>
         else if name = ''email'' then (newCustomer st)\<lparr>email := val\<rparr>
         else newCustomer st)]"

text \<open>
  The \<open>try\<close> block of \<open>handleSubmit\<close> (lines 80-98): its effects and how it ends
  (\<open>Fulfilled ()\<close> normally, \<open>Rejected e\<close> with \<open>e\<close> thrown, \<open>Pending\<close> suspended for ever at
  an \<open>await\<close>). \<open>net\<close> is what the \<open>fetch\<close> call settles to.
\<close>

definition try_block ::
  "runtime \<Rightarrow> Customer \<Rightarrow> response promise \<Rightarrow> effect list \<times> unit promise" where
  "try_block rt c net =
     (let called = [SetIsSubmitting True, Fetch ''/api/customers'' ''POST'' c] in
      case net of
        Pending \<Rightarrow> (called, Pending)
      | Rejected e \<Rightarrow> (called @ [FetchRejected e], Rejected e)
      | Fulfilled r \<Rightarrow>
          if \<not> response_ok r then
            (case json r of
               Pending \<Rightarrow> (called @ [FetchResolved r], Pending)
             | Rejected e \<Rightarrow> (called @ [FetchResolved r], Rejected e)
             | Fulfilled errorData \<Rightarrow>
                 (case get_message rt errorData of
                    Inl thrown \<Rightarrow> (called @ [FetchResolved r], Rejected thrown)
                  | Inr m \<Rightarrow>
                      (case new_Error rt (if truthy m then m else JStr ''Failed to add customer'') of
                         Inl thrown \<Rightarrow> (called @ [FetchResolved r], Rejected thrown)
                       | Inr err \<Rightarrow> (called @ [FetchResolved r], Rejected err))))
          else
            (called @
               [FetchResolved r,
                SetNewCustomer \<lparr>firstName = [], lastName = [], email = []\<rparr>,
                Mutate ''/api/customers'',
                SetIsModalOpen False],
             Fulfilled ()))"

text \<open>The \<open>catch\<close> block (lines 99-104) and the \<open>finally\<close> block (lines 105-107).\<close>

definition catch_block :: "js \<Rightarrow> effect list" where
  "catch_block err =
     (if instanceof_Error err
      then (case err of JError m \<Rightarrow> [SetSubmitError (Some m)] | _ \<Rightarrow> [])
      else [SetSubmitError (Some ''An unexpected error occurred'')])"

definition finally_block :: "effect list" where
  "finally_block = [SetIsSubmitting False]"

text \<open>
  \<open>handleSubmit\<close> (lines 70-108): the effects, and whether the promise it returns settles.
\<close>

definition handleSubmit ::
  "runtime \<Rightarrow> home_state \<Rightarrow> response promise \<Rightarrow> effect list \<times> unit promise" where
  "handleSubmit rt st net =
     (let c = newCustomer st in
      if firstName c = [] \<or> lastName c = [] \<or> email c = [] then
        ([SetSubmitError None,
          SetSubmitError (Some ''Please fill in all required fields'')], Fulfilled ())
      else
        (case try_block rt c net of
           (es, Pending) \<Rightarrow> (SetSubmitError None # es, Pending)
         | (es, Rejected err) \<Rightarrow>
             (SetSubmitError None # es @ catch_block err @ finally_block, Fulfilled ())
         | (es, Fulfilled u) \<Rightarrow> (SetSubmitError None # es @ finally_block, Fulfilled ())))"

text \<open>\<open>handleClose\<close> (lines 116-121).\<close>

definition handleClose :: "home_state \<Rightarrow> effect list" where
  "handleClose st =
     (if \<not> isSubmitting st then [SetIsModalOpen False, SetSubmitError None] else [])"

subsection \<open>The customer list\<close>

text \<open>
  \<open>fetcher\<close> (lines 51-56): the body is parsed before the status is looked at, and a
  response that is not ok throws the parsed body itself.
\<close>

definition fetcher :: "response promise \<Rightarrow> js promise" where
  "fetcher net =
     (case net of
        Pending \<Rightarrow> Pending
      | Rejected e \<Rightarrow> Rejected e
      | Fulfilled r \<Rightarrow>
          (case json r of
             Pending \<Rightarrow> Pending
           | Rejected e \<Rightarrow> Rejected e
           | Fulfilled body \<Rightarrow> if \<not> response_ok r then Rejected body else Fulfilled body))"

text \<open>
  The three states of the customer list (sections 3 and 4.1 of the specification):
  \<open>Loading\<close> while the fetch is pending, \<open>Ready\<close> with the data once it succeeded,
  \<open>Error\<close> carrying what the fetch failed with.
\<close>

datatype fetch_state = Loading | Error js | Ready js

text \<open>
  Modelled from the spec: the \<open>useSWR\<close> hook of the swr package, which is not part of the
  repository's sources. The state of the cache follows how the promise of \<open>fetcher\<close> ends;
  \<open>cache_error\<close> below is the \<open>error\<close> the hook hands to the component.
\<close>

definition directory_cache :: "js promise \<Rightarrow> fetch_state" where
  "directory_cache p =
     (case p of Pending \<Rightarrow> Loading | Rejected e \<Rightarrow> Error e | Fulfilled d \<Rightarrow> Ready d)"

fun cache_error :: "fetch_state \<Rightarrow> js" where
  "cache_error (Error e) = e"
| "cache_error s = JUndefined"

text \<open>
  The banner above the table (lines 163-167): \<open>{error && (<Alert>{error.message}</Alert>)}\<close>.
  \<open>Banner child\<close> is the alert with \<open>child\<close> as its content; React shows a string child
  as that text.
\<close>

datatype banner = NoBanner | Banner js | RenderThrows js

definition error_banner :: "runtime \<Rightarrow> js \<Rightarrow> banner" where
  "error_banner rt error =
     (if truthy error
      then (case get_message rt error of Inr child \<Rightarrow> Banner child | Inl thrown \<Rightarrow> RenderThrows thrown)
      else NoBanner)"

subsection \<open>Vocabulary of the properties\<close>

text \<open>
  A draft is fully filled when none of its three fields is empty: the negation of the test
  \<open>handleSubmit\<close> makes. The create call failed when \<open>fetch\<close> rejected (a transport
  failure) or resolved with a response that is not ok.
\<close>

definition fully_filled :: "Customer \<Rightarrow> bool" where
  "fully_filled c = (firstName c \<noteq> [] \<and> lastName c \<noteq> [] \<and> email c \<noteq> [])"

fun create_failed :: "response promise \<Rightarrow> bool" where
  "create_failed (Fulfilled r) = (\<not> response_ok r)"
| "create_failed (Rejected e) = True"
| "create_failed Pending = False"

text \<open>
  \<open>fails_with rt st net t\<close>: \<open>handleSubmit\<close> returns, and the state it leaves differs from
  the captured one in two cells only, the submitting flag (false) and the submission error
  (the text \<open>t\<close>); the dialog's visibility and the draft are the captured ones.
\<close>

definition fails_with :: "runtime \<Rightarrow> home_state \<Rightarrow> response promise \<Rightarrow> string \<Rightarrow> bool" where
  "fails_with rt st net t =
     (snd (handleSubmit rt st net) = Fulfilled ()
      \<and> run_effects (fst (handleSubmit rt st net)) st
          = st\<lparr>isSubmitting := False, submitError := Some t\<rparr>)"

subsection \<open>Inputs for the examples\<close>

text \<open>
  One runtime, the draft of the spec's examples, and the dialog open on a draft. The
  examples below never reach the runtime's \<open>ToString\<close>.
\<close>

definition sample_runtime :: runtime where
  "sample_runtime =
     \<lparr>nullish_read = (\<lambda>v. ''Cannot read properties of null''),
      to_primitive_string = (\<lambda>v. Inr ''[object Object]'')\<rparr>"

definition ada :: Customer where
  "ada = \<lparr>firstName = ''Ada'', lastName = ''Lovelace'', email = ''ada@example.com''\<rparr>"

definition editing :: "Customer \<Rightarrow> home_state" where
  "editing c = \<lparr>isModalOpen = True, isSubmitting = False, submitError = None, newCustomer = c\<rparr>"

section \<open>Properties\<close>

text \<open>
  The state after a handler is \<open>run_effects\<close> of its effects on the state it captured:
  what the component shows once the handler is done, with no other handler in between.
\<close>

subsection \<open>The blocks of handleSubmit\<close>

lemma run_effects_Nil: "run_effects [] st = st"
  by (simp add: run_effects_def)

lemma handleSubmit_filled:
  "fully_filled (newCustomer st) \<Longrightarrow>
   handleSubmit rt st net =
     (case try_block rt (newCustomer st) net of
        (es, Pending) \<Rightarrow> (SetSubmitError None # es, Pending)
      | (es, Rejected err) \<Rightarrow>
          (SetSubmitError None # es @ catch_block err @ finally_block, Fulfilled ())
      | (es, Fulfilled u) \<Rightarrow> (SetSubmitError None # es @ finally_block, Fulfilled ()))"
  by (simp add: handleSubmit_def fully_filled_def)

lemma try_block_Rejected:
  "try_block rt c (Rejected e) =
     ([SetIsSubmitting True, Fetch ''/api/customers'' ''POST'' c, FetchRejected e], Rejected e)"
  by (simp add: try_block_def Let_def)

lemma try_block_Pending:
  "try_block rt c Pending = ([SetIsSubmitting True, Fetch ''/api/customers'' ''POST'' c], Pending)"
  by (simp add: try_block_def Let_def)

lemma try_block_ok:
  "response_ok r \<Longrightarrow>
   try_block rt c (Fulfilled r) =
     ([SetIsSubmitting True, Fetch ''/api/customers'' ''POST'' c, FetchResolved r,
       SetNewCustomer \<lparr>firstName = [], lastName = [], email = []\<rparr>,
       Mutate ''/api/customers'', SetIsModalOpen False], Fulfilled ())"
  by (simp add: try_block_def Let_def)

lemma try_block_not_ok:
  "\<not> response_ok r \<Longrightarrow>
   fst (try_block rt c (Fulfilled r)) =
     [SetIsSubmitting True, Fetch ''/api/customers'' ''POST'' c, FetchResolved r]
   \<and> snd (try_block rt c (Fulfilled r)) \<noteq> Fulfilled ()"
  by (simp add: try_block_def Let_def split: promise.splits sum.splits)

lemma try_block_json_Rejected:
  "\<not> response_ok r \<Longrightarrow> json r = Rejected e \<Longrightarrow> snd (try_block rt c (Fulfilled r)) = Rejected e"
  by (simp add: try_block_def Let_def)

lemma try_block_json_Fulfilled:
  "\<not> response_ok r \<Longrightarrow> json r = Fulfilled body \<Longrightarrow>
   \<exists>e. snd (try_block rt c (Fulfilled r)) = Rejected e"
  by (simp add: try_block_def Let_def split: sum.splits)

lemma try_block_fallback:
  "\<not> response_ok r \<Longrightarrow> json r = Fulfilled body \<Longrightarrow> get_message rt body = Inr v \<Longrightarrow> \<not> truthy v \<Longrightarrow>
   snd (try_block rt c (Fulfilled r)) = Rejected (JError ''Failed to add customer'')"
  by (simp add: try_block_def Let_def new_Error_def)

lemma catch_block_cases:
  "catch_block (JError m) = [SetSubmitError (Some m)]"
  "\<not> instanceof_Error e \<Longrightarrow> catch_block e = [SetSubmitError (Some ''An unexpected error occurred'')]"
  by (simp_all add: catch_block_def)

lemma catch_block_sets: "\<exists>m. catch_block e = [SetSubmitError (Some m)]"
  by (cases e) (simp_all add: catch_block_def)

lemma catch_block_no_Mutate: "Mutate k \<notin> set (catch_block e)"
  using catch_block_sets [of e] by auto

text \<open>What \<open>handleSubmit\<close> does with a value thrown in its \<open>try\<close> block.\<close>

lemma handleSubmit_thrown:
  assumes "fully_filled (newCustomer st)" and "create_failed net"
    and "snd (try_block rt (newCustomer st) net) = Rejected e"
  shows "snd (handleSubmit rt st net) = Fulfilled ()"
    and "run_effects (fst (handleSubmit rt st net)) st
         = run_effects (catch_block e) st\<lparr>isSubmitting := False\<rparr>"
    and "\<forall>k. Mutate k \<notin> set (fst (handleSubmit rt st net))"
proof -
  obtain m where m: "catch_block e = [SetSubmitError (Some m)]"
    using catch_block_sets by blast
  show "snd (handleSubmit rt st net) = Fulfilled ()"
    using assms by (cases "try_block rt (newCustomer st) net") (simp add: handleSubmit_filled)
  show "run_effects (fst (handleSubmit rt st net)) st
         = run_effects (catch_block e) st\<lparr>isSubmitting := False\<rparr>"
  proof (cases net)
    case (Fulfilled r)
    with assms try_block_not_ok [of r rt "newCustomer st"] m show ?thesis
      by (cases "try_block rt (newCustomer st) net")
        (simp add: handleSubmit_filled finally_block_def run_effects_def)
  next
    case (Rejected x)
    with assms m show ?thesis
      by (simp add: handleSubmit_filled try_block_Rejected finally_block_def run_effects_def)
  next
    case Pending
    with assms show ?thesis by simp
  qed
  show "\<forall>k. Mutate k \<notin> set (fst (handleSubmit rt st net))"
  proof (cases net)
    case (Fulfilled r)
    with assms try_block_not_ok [of r rt "newCustomer st"] m show ?thesis
      by (cases "try_block rt (newCustomer st) net")
        (simp add: handleSubmit_filled finally_block_def)
  next
    case (Rejected x)
    with assms m show ?thesis
      by (simp add: handleSubmit_filled try_block_Rejected finally_block_def)
  next
    case Pending
    with assms show ?thesis by simp
  qed
qed

text \<open>What the failing paths of the \<open>try\<close> block throw, and what is shown for it.\<close>

lemma get_message_Inl:
  "get_message rt body = Inl t \<Longrightarrow>
   (body = JNull \<or> body = JUndefined) \<and> t = JError (nullish_read rt body)"
  by (cases body) auto

lemma try_block_read_throws:
  "\<not> response_ok r \<Longrightarrow> json r = Fulfilled body \<Longrightarrow> get_message rt body = Inl t \<Longrightarrow>
   snd (try_block rt c (Fulfilled r)) = Rejected t"
  by (simp add: try_block_def Let_def)

lemma truthy_defined: "truthy v \<Longrightarrow> v \<noteq> JUndefined"
  by auto

lemma try_block_converted:
  "\<not> response_ok r \<Longrightarrow> json r = Fulfilled body \<Longrightarrow> get_message rt body = Inr v \<Longrightarrow>
   truthy v \<Longrightarrow> js_to_string rt v = Inr s \<Longrightarrow>
   snd (try_block rt c (Fulfilled r)) = Rejected (JError s)"
  by (simp add: try_block_def Let_def new_Error_def truthy_defined)

lemma try_block_conversion_throws:
  "\<not> response_ok r \<Longrightarrow> json r = Fulfilled body \<Longrightarrow> get_message rt body = Inr v \<Longrightarrow>
   truthy v \<Longrightarrow> js_to_string rt v = Inl t \<Longrightarrow>
   snd (try_block rt c (Fulfilled r)) = Rejected t"
  by (simp add: try_block_def Let_def new_Error_def truthy_defined)

lemma instanceof_Error_iff: "instanceof_Error e \<longleftrightarrow> (\<exists>m. e = JError m)"
  by (cases e) simp_all

lemma thrown_Error_fails_with:
  assumes "fully_filled (newCustomer st)" and "create_failed net"
    and "snd (try_block rt (newCustomer st) net) = Rejected (JError m)"
  shows "fails_with rt st net m"
  using handleSubmit_thrown(1,2) [OF assms]
  by (simp add: fails_with_def catch_block_cases run_effects_def)

lemma thrown_other_fails_with:
  assumes "fully_filled (newCustomer st)" and "create_failed net"
    and "snd (try_block rt (newCustomer st) net) = Rejected e" and "\<not> instanceof_Error e"
  shows "fails_with rt st net ''An unexpected error occurred''"
  using handleSubmit_thrown(1,2) [OF assms(1-3)] assms(4)
  by (simp add: fails_with_def catch_block_cases run_effects_def)

lemma handleSubmit_json_Pending:
  "fully_filled (newCustomer st) \<Longrightarrow> \<not> response_ok r \<Longrightarrow> json r = Pending \<Longrightarrow>
   snd (handleSubmit rt st (Fulfilled r)) = Pending"
  by (simp add: handleSubmit_filled try_block_def Let_def)

subsection \<open>Validation (C1)\<close>

text \<open>
  C1. When at least one of \<open>firstName\<close>, \<open>lastName\<close>, \<open>email\<close> of the draft is empty,
  \<open>handleSubmit\<close> returns, calls neither \<open>fetch\<close> nor \<open>setIsSubmitting\<close>, and leaves the
  submission error at "Please fill in all required fields", with nothing else changed.
\<close>

theorem submit_validation_gate:
  assumes "firstName (newCustomer st) = [] \<or> lastName (newCustomer st) = []
           \<or> email (newCustomer st) = []"
  shows "snd (handleSubmit rt st net) = Fulfilled ()
       \<and> (\<forall>url method body. Fetch url method body \<notin> set (fst (handleSubmit rt st net)))
       \<and> (\<forall>b. SetIsSubmitting b \<notin> set (fst (handleSubmit rt st net)))
       \<and> run_effects (fst (handleSubmit rt st net)) st
           = st\<lparr>submitError := Some ''Please fill in all required fields''\<rparr>"
  using assms by (auto simp add: handleSubmit_def run_effects_def)

theorem submit_validation_gate_witness:
  "snd (handleSubmit sample_runtime (editing (ada\<lparr>email := []\<rparr>)) Pending) = Fulfilled ()
   \<and> Fetch ''/api/customers'' ''POST'' (ada\<lparr>email := []\<rparr>)
        \<notin> set (fst (handleSubmit sample_runtime (editing (ada\<lparr>email := []\<rparr>)) Pending))
   \<and> SetIsSubmitting True
        \<notin> set (fst (handleSubmit sample_runtime (editing (ada\<lparr>email := []\<rparr>)) Pending))
   \<and> submitError (run_effects (fst (handleSubmit sample_runtime (editing (ada\<lparr>email := []\<rparr>)) Pending))
        (editing (ada\<lparr>email := []\<rparr>))) = Some ''Please fill in all required fields''"
  using submit_validation_gate [of "editing (ada\<lparr>email := []\<rparr>)" sample_runtime Pending]
  by (simp add: editing_def ada_def)

subsection \<open>Closing the dialog (C2)\<close>

text \<open>
  C2, as stated, fails: closing the dialog does not reset the draft. With the dialog open on
  the draft Ada Lovelace and no submission in flight, the draft after \<open>handleClose\<close> is
  still Ada Lovelace, not the empty record.
\<close>

theorem close_keeps_draft_counterexample:
  "\<not> isSubmitting (editing ada)
   \<and> newCustomer (run_effects (handleClose (editing ada)) (editing ada)) = ada
   \<and> ada \<noteq> \<lparr>firstName = [], lastName = [], email = []\<rparr>"
  by (simp add: handleClose_def editing_def ada_def run_effects_def)

text \<open>
  C2, amended. When no submission is in flight, \<open>handleClose\<close> closes the dialog and clears
  the submission error, and leaves the draft as it is; while a submission is in flight it
  does nothing.
\<close>

theorem close_effect:
  "(\<not> isSubmitting st \<longrightarrow>
      isModalOpen (run_effects (handleClose st) st) = False
    \<and> submitError (run_effects (handleClose st) st) = None
    \<and> newCustomer (run_effects (handleClose st) st) = newCustomer st
    \<and> isSubmitting (run_effects (handleClose st) st) = False)
   \<and> (isSubmitting st \<longrightarrow> handleClose st = [] \<and> run_effects (handleClose st) st = st)"
  by (simp add: handleClose_def run_effects_def)

theorem close_effect_witness:
  "isModalOpen (run_effects (handleClose (editing ada)) (editing ada)) = False
   \<and> submitError (run_effects (handleClose (editing ada\<lparr>submitError := Some ''Email is invalid''\<rparr>))
        (editing ada\<lparr>submitError := Some ''Email is invalid''\<rparr>)) = None
   \<and> newCustomer (run_effects (handleClose (editing ada)) (editing ada)) = ada
   \<and> run_effects (handleClose (editing ada\<lparr>isSubmitting := True\<rparr>)) (editing ada\<lparr>isSubmitting := True\<rparr>)
      = editing ada\<lparr>isSubmitting := True\<rparr>"
  using close_effect [of "editing ada"]
    close_effect [of "editing ada\<lparr>submitError := Some ''Email is invalid''\<rparr>"]
    close_effect [of "editing ada\<lparr>isSubmitting := True\<rparr>"]
  by (simp add: editing_def run_effects_Nil)

subsection \<open>An error body that does not parse (C3)\<close>

text \<open>
  C3, as stated, fails: when the body of an error response does not parse, the message shown
  is the parsing exception's own. For a 500 whose \<open>response.json()\<close> rejects with the
  \<open>SyntaxError\<close> "Unexpected token < in JSON at position 0", the submission error is that
  text, and so is the text of the banner on the list path.
\<close>

theorem malformed_error_body_counterexample:
  "\<not> response_ok \<lparr>status = 500, json = Rejected (JError ''Unexpected token < in JSON at position 0'')\<rparr>
   \<and> submitError (run_effects
        (fst (handleSubmit sample_runtime (editing ada)
           (Fulfilled \<lparr>status = 500, json = Rejected (JError ''Unexpected token < in JSON at position 0'')\<rparr>)))
        (editing ada)) = Some ''Unexpected token < in JSON at position 0''
   \<and> error_banner sample_runtime (cache_error (directory_cache (fetcher
        (Fulfilled \<lparr>status = 500, json = Rejected (JError ''Unexpected token < in JSON at position 0'')\<rparr>))))
      = Banner (JStr ''Unexpected token < in JSON at position 0'')"
  by (simp add: handleSubmit_def try_block_def catch_block_def finally_block_def
      run_effects_def editing_def ada_def response_ok_def fetcher_def directory_cache_def
      error_banner_def)

text \<open>
  C3, amended. When the response is not ok and \<open>response.json()\<close> rejects with \<open>e\<close>: on the
  create path, for a fully filled draft, \<open>handleSubmit\<close> returns with the submitting flag
  released and the submission error set to the message of \<open>e\<close> when \<open>e\<close> is an \<open>Error\<close>
  (the parsing exception's own message), and to "An unexpected error occurred" when it is
  not; on the list path \<open>fetcher\<close> rejects with \<open>e\<close> itself, so the cache is in \<open>Error e\<close>
  and the banner shows the message of \<open>e\<close>. Nothing is thrown past either path.
\<close>

theorem malformed_error_body:
  assumes body: "json r = Rejected e" and bad: "\<not> response_ok r"
    and filled: "fully_filled (newCustomer st)"
  shows "snd (handleSubmit rt st (Fulfilled r)) = Fulfilled ()
    \<and> isSubmitting (run_effects (fst (handleSubmit rt st (Fulfilled r))) st) = False
    \<and> (\<forall>m. e = JError m \<longrightarrow>
          submitError (run_effects (fst (handleSubmit rt st (Fulfilled r))) st) = Some m)
    \<and> (\<not> instanceof_Error e \<longrightarrow>
          submitError (run_effects (fst (handleSubmit rt st (Fulfilled r))) st)
            = Some ''An unexpected error occurred'')
    \<and> fetcher (Fulfilled r) = Rejected e
    \<and> directory_cache (fetcher (Fulfilled r)) = Error e
    \<and> (\<forall>m. e = JError m \<longrightarrow>
          error_banner rt (cache_error (directory_cache (fetcher (Fulfilled r)))) = Banner (JStr m))"
proof -
  have failed: "create_failed (Fulfilled r)"
    using bad by simp
  have thrown: "snd (try_block rt (newCustomer st) (Fulfilled r)) = Rejected e"
    by (rule try_block_json_Rejected [OF bad body])
  note submit = handleSubmit_thrown [OF filled failed thrown]
  have "isSubmitting (run_effects (fst (handleSubmit rt st (Fulfilled r))) st) = False"
    using submit(2) catch_block_sets [of e] by (auto simp add: run_effects_def)
  moreover have "submitError (run_effects (fst (handleSubmit rt st (Fulfilled r))) st) = Some m"
    if "e = JError m" for m
    using submit(2) that by (simp add: catch_block_cases run_effects_def)
  moreover have "submitError (run_effects (fst (handleSubmit rt st (Fulfilled r))) st)
      = Some ''An unexpected error occurred''" if "\<not> instanceof_Error e"
    using submit(2) that by (simp add: catch_block_cases run_effects_def)
  moreover have "fetcher (Fulfilled r) = Rejected e"
    using body by (simp add: fetcher_def)
  moreover have "error_banner rt (cache_error (directory_cache (fetcher (Fulfilled r)))) = Banner (JStr m)"
    if "e = JError m" for m
    using body that by (simp add: fetcher_def directory_cache_def error_banner_def)
  ultimately show ?thesis
    using submit(1) by (simp add: directory_cache_def)
qed

theorem malformed_error_body_witness:
  "snd (handleSubmit sample_runtime (editing ada)
      (Fulfilled \<lparr>status = 502, json = Rejected (JError ''Unexpected end of JSON input'')\<rparr>)) = Fulfilled ()
   \<and> submitError (run_effects (fst (handleSubmit sample_runtime (editing ada)
      (Fulfilled \<lparr>status = 502, json = Rejected (JError ''Unexpected end of JSON input'')\<rparr>))) (editing ada))
     = Some ''Unexpected end of JSON input''
   \<and> directory_cache (fetcher (Fulfilled \<lparr>status = 502, json = Rejected (JError ''Unexpected end of JSON input'')\<rparr>))
     = Error (JError ''Unexpected end of JSON input'')
   \<and> error_banner sample_runtime (cache_error (directory_cache (fetcher
        (Fulfilled \<lparr>status = 502, json = Rejected (JError ''Unexpected end of JSON input'')\<rparr>))))
     = Banner (JStr ''Unexpected end of JSON input'')"
proof -
  let ?r = "\<lparr>status = 502, json = Rejected (JError ''Unexpected end of JSON input'')\<rparr>"
  have body: "json ?r = Rejected (JError ''Unexpected end of JSON input'')" by simp
  have bad: "\<not> response_ok ?r" by (simp add: response_ok_def)
  have filled: "fully_filled (newCustomer (editing ada))"
    by (simp add: fully_filled_def editing_def ada_def)
  from malformed_error_body [OF body bad filled, of sample_runtime]
  show ?thesis by blast
qed

subsection \<open>A successful create (C4)\<close>

text \<open>
  C4. For a fully filled draft and a create call that resolves with an ok response (a status
  from 200 to 299), \<open>handleSubmit\<close> returns, has called \<open>mutate('/api/customers')\<close>, and
  leaves the dialog closed, the draft empty, the submitting flag false and no submission
  error.
\<close>

theorem submit_success_resets:
  assumes "firstName (newCustomer st) \<noteq> []" and "lastName (newCustomer st) \<noteq> []"
    and "email (newCustomer st) \<noteq> []"
    and "net = Fulfilled r" and "response_ok r"
  shows "snd (handleSubmit rt st net) = Fulfilled ()
       \<and> Mutate ''/api/customers'' \<in> set (fst (handleSubmit rt st net))
       \<and> run_effects (fst (handleSubmit rt st net)) st
           = \<lparr>isModalOpen = False, isSubmitting = False, submitError = None,
              newCustomer = \<lparr>firstName = [], lastName = [], email = []\<rparr>\<rparr>"
  using assms
  by (simp add: handleSubmit_def try_block_def finally_block_def run_effects_def)

theorem submit_success_resets_witness:
  "snd (handleSubmit sample_runtime (editing ada) (Fulfilled \<lparr>status = 201, json = Pending\<rparr>)) = Fulfilled ()
   \<and> Mutate ''/api/customers''
        \<in> set (fst (handleSubmit sample_runtime (editing ada) (Fulfilled \<lparr>status = 201, json = Pending\<rparr>)))
   \<and> run_effects (fst (handleSubmit sample_runtime (editing ada) (Fulfilled \<lparr>status = 201, json = Pending\<rparr>)))
        (editing ada)
      = \<lparr>isModalOpen = False, isSubmitting = False, submitError = None,
         newCustomer = \<lparr>firstName = [], lastName = [], email = []\<rparr>\<rparr>"
  using submit_success_resets [of "editing ada" "Fulfilled \<lparr>status = 201, json = Pending\<rparr>"
      "\<lparr>status = 201, json = Pending\<rparr>" sample_runtime]
  by (simp add: editing_def ada_def response_ok_def)

subsection \<open>A failed create (C5)\<close>

text \<open>
  C5, as stated, fails: without a message from the server the submission error is not always
  one of the handler's two fallback texts. When \<open>fetch\<close> rejects with the \<open>TypeError\<close>
  "Failed to fetch", the submission error is "Failed to fetch", the exception's own message.
\<close>

theorem submit_transport_failure_counterexample:
  "fully_filled (newCustomer (editing ada))
   \<and> create_failed (Rejected (JError ''Failed to fetch''))
   \<and> submitError (run_effects
        (fst (handleSubmit sample_runtime (editing ada) (Rejected (JError ''Failed to fetch''))))
        (editing ada)) = Some ''Failed to fetch''
   \<and> ''Failed to fetch'' \<noteq> ''Failed to add customer''
   \<and> ''Failed to fetch'' \<noteq> ''An unexpected error occurred''"
  by (simp add: handleSubmit_def try_block_def catch_block_def finally_block_def
      run_effects_def editing_def ada_def fully_filled_def)

text \<open>
  C5, amended. For a fully filled draft and a failed create call, \<open>handleSubmit\<close> returns
  unless the reading of the body of a response that is not ok never settles; whenever it
  returns, the dialog's visibility and the draft are unchanged, the submitting flag is false
  and the submission error is set to a text (\<open>fails_with\<close>), which can be empty. The text is,
  in every case:
  \<^item> when \<open>fetch\<close> or \<open>response.json()\<close> rejects: the rejection's own message when it is an
    \<open>Error\<close>, "An unexpected error occurred" when it is not;
  \<^item> when the body is \<open>null\<close> (or \<open>undefined\<close>), so that reading \<open>message\<close> throws: the
    message of that \<open>TypeError\<close>;
  \<^item> when the body is anything else and its \<open>message\<close> is absent or falsy:
    "Failed to add customer";
  \<^item> when its \<open>message\<close> is truthy: the message itself when it is a string (then not
    empty), and in general the string \<open>new Error(message)\<close> converts it to; when that
    conversion throws, what is shown for the thrown value as in the first case.
\<close>

theorem submit_failure_preserves:
  assumes filled: "fully_filled (newCustomer st)" and failed: "create_failed net"
  shows "(snd (handleSubmit rt st net) = Fulfilled () \<longrightarrow> (\<exists>t. fails_with rt st net t))
    \<and> (net = Rejected e \<or> (net = Fulfilled r \<and> json r = Rejected e) \<longrightarrow>
         (instanceof_Error e \<longrightarrow> (\<exists>m. e = JError m \<and> fails_with rt st net m))
       \<and> (\<not> instanceof_Error e \<longrightarrow> fails_with rt st net ''An unexpected error occurred''))
    \<and> (net = Fulfilled r \<and> json r = Pending \<longrightarrow> snd (handleSubmit rt st net) = Pending)
    \<and> (net = Fulfilled r \<and> json r = Fulfilled body \<and> get_message rt body = Inl thrown \<longrightarrow>
         (body = JNull \<or> body = JUndefined)
       \<and> fails_with rt st net (nullish_read rt body))
    \<and> (net = Fulfilled r \<and> json r = Fulfilled body \<and> get_message rt body = Inr v \<longrightarrow>
         (\<not> truthy v \<longrightarrow> fails_with rt st net ''Failed to add customer'')
       \<and> (truthy v \<longrightarrow>
            (\<forall>s. v = JStr s \<longrightarrow> s \<noteq> [] \<and> fails_with rt st net s)
          \<and> (\<forall>s. js_to_string rt v = Inr s \<longrightarrow> fails_with rt st net s)
          \<and> (\<forall>t. js_to_string rt v = Inl t \<longrightarrow>
                (instanceof_Error t \<longrightarrow> (\<exists>m. t = JError m \<and> fails_with rt st net m))
              \<and> (\<not> instanceof_Error t \<longrightarrow>
                    fails_with rt st net ''An unexpected error occurred''))))"
proof -
  note error = thrown_Error_fails_with [OF filled failed]
    and other = thrown_other_fails_with [OF filled failed]
  have thrown: "(instanceof_Error x \<longrightarrow> (\<exists>m. x = JError m \<and> fails_with rt st net m))
      \<and> (\<not> instanceof_Error x \<longrightarrow> fails_with rt st net ''An unexpected error occurred'')"
    if "snd (try_block rt (newCustomer st) net) = Rejected x" for x
    using error other that by (auto simp add: instanceof_Error_iff)
  have bad: "\<not> response_ok r" if "net = Fulfilled r"
    using failed that by simp
  have frame: "snd (handleSubmit rt st net) = Fulfilled () \<longrightarrow> (\<exists>t. fails_with rt st net t)"
  proof (cases "snd (try_block rt (newCustomer st) net)")
    case (Fulfilled u)
    with failed show ?thesis
      by (cases net) (simp_all add: try_block_not_ok try_block_Rejected)
  next
    case (Rejected x)
    from thrown [OF this] show ?thesis by blast
  next
    case Pending
    with filled show ?thesis
      by (cases "try_block rt (newCustomer st) net") (simp add: handleSubmit_filled)
  qed
  have rejected: "(instanceof_Error e \<longrightarrow> (\<exists>m. e = JError m \<and> fails_with rt st net m))
      \<and> (\<not> instanceof_Error e \<longrightarrow> fails_with rt st net ''An unexpected error occurred'')"
    if "net = Rejected e \<or> (net = Fulfilled r \<and> json r = Rejected e)"
  proof -
    have "snd (try_block rt (newCustomer st) net) = Rejected e"
      using that bad by (auto simp add: try_block_Rejected try_block_json_Rejected)
    then show ?thesis by (rule thrown)
  qed
  have pending: "snd (handleSubmit rt st net) = Pending"
    if "net = Fulfilled r" "json r = Pending"
    using that bad filled by (simp add: handleSubmit_json_Pending)
  have nullish: "(body = JNull \<or> body = JUndefined) \<and> fails_with rt st net (nullish_read rt body)"
    if "net = Fulfilled r" "json r = Fulfilled body" "get_message rt body = Inl thrown"
  proof -
    from get_message_Inl [OF that(3)]
    have body: "body = JNull \<or> body = JUndefined"
      and t: "thrown = JError (nullish_read rt body)" by simp_all
    have "snd (try_block rt (newCustomer st) net) = Rejected (JError (nullish_read rt body))"
      using try_block_read_throws [OF bad [OF that(1)] that(2,3)] that(1) t by simp
    from error [OF this] body show ?thesis by simp
  qed
  have fallback: "fails_with rt st net ''Failed to add customer''"
    if "net = Fulfilled r" "json r = Fulfilled body" "get_message rt body = Inr v" "\<not> truthy v"
  proof -
    have "snd (try_block rt (newCustomer st) net) = Rejected (JError ''Failed to add customer'')"
      using try_block_fallback [OF bad [OF that(1)] that(2,3,4)] that(1) by simp
    then show ?thesis by (rule error)
  qed
  have converted: "fails_with rt st net s"
    if "net = Fulfilled r" "json r = Fulfilled body" "get_message rt body = Inr v" "truthy v"
      "js_to_string rt v = Inr s" for s
  proof -
    have "snd (try_block rt (newCustomer st) net) = Rejected (JError s)"
      using try_block_converted [OF bad [OF that(1)] that(2,3,4,5)] that(1) by simp
    then show ?thesis by (rule error)
  qed
  have string: "s \<noteq> [] \<and> fails_with rt st net s"
    if "net = Fulfilled r" "json r = Fulfilled body" "get_message rt body = Inr v" "truthy v"
      "v = JStr s" for s
    using converted [OF that(1-4), of s] that(4,5) by simp
  have conversion: "(instanceof_Error t \<longrightarrow> (\<exists>m. t = JError m \<and> fails_with rt st net m))
      \<and> (\<not> instanceof_Error t \<longrightarrow> fails_with rt st net ''An unexpected error occurred'')"
    if "net = Fulfilled r" "json r = Fulfilled body" "get_message rt body = Inr v" "truthy v"
      "js_to_string rt v = Inl t" for t
  proof -
    have "snd (try_block rt (newCustomer st) net) = Rejected t"
      using try_block_conversion_throws [OF bad [OF that(1)] that(2,3,4,5)] that(1) by simp
    then show ?thesis by (rule thrown)
  qed
  from frame rejected pending nullish fallback converted string conversion
  show ?thesis by blast
qed

theorem submit_failure_preserves_witness:
  "snd (handleSubmit sample_runtime (editing ada) (Fulfilled \<lparr>status = 400,
      json = Fulfilled (JObj [(''code'', JStr ''invalid_email''), (''message'', JStr ''Email is invalid'')])\<rparr>))
     = Fulfilled ()
   \<and> run_effects (fst (handleSubmit sample_runtime (editing ada) (Fulfilled \<lparr>status = 400,
      json = Fulfilled (JObj [(''code'', JStr ''invalid_email''), (''message'', JStr ''Email is invalid'')])\<rparr>)))
      (editing ada)
     = (editing ada)\<lparr>submitError := Some ''Email is invalid''\<rparr>
   \<and> fails_with sample_runtime (editing ada) (Fulfilled \<lparr>status = 500, json = Fulfilled JNull\<rparr>)
       (nullish_read sample_runtime JNull)
   \<and> fails_with sample_runtime (editing ada) (Fulfilled \<lparr>status = 404, json = Fulfilled (JObj [])\<rparr>)
       ''Failed to add customer''
   \<and> fails_with sample_runtime (editing ada) (Rejected (JError [])) []
   \<and> fails_with sample_runtime (editing ada) (Rejected (JStr ''offline''))
       ''An unexpected error occurred''
   \<and> snd (handleSubmit sample_runtime (editing ada) (Fulfilled \<lparr>status = 503, json = Pending\<rparr>))
       = Pending"
proof -
  let ?body = "JObj [(''code'', JStr ''invalid_email''), (''message'', JStr ''Email is invalid'')]"
  let ?invalid = "\<lparr>status = 400, json = Fulfilled ?body\<rparr>"
  let ?null = "\<lparr>status = 500, json = Fulfilled JNull\<rparr>"
  let ?empty = "\<lparr>status = 404, json = Fulfilled (JObj [])\<rparr>"
  let ?stuck = "\<lparr>status = 503, json = Pending\<rparr>"
  have filled: "fully_filled (newCustomer (editing ada))"
    by (simp add: fully_filled_def editing_def ada_def)
  have invalid: "create_failed (Fulfilled ?invalid)"
    and null: "create_failed (Fulfilled ?null)"
    and empty: "create_failed (Fulfilled ?empty)"
    and stuck: "create_failed (Fulfilled ?stuck)"
    and rejected: "create_failed (Rejected x)" for x
    by (simp_all add: response_ok_def)
  from submit_failure_preserves [OF filled invalid,
      where r = ?invalid and body = ?body and v = "JStr ''Email is invalid''" and rt = sample_runtime]
  have "fails_with sample_runtime (editing ada) (Fulfilled ?invalid) ''Email is invalid''"
    by simp
  then have 1: "snd (handleSubmit sample_runtime (editing ada) (Fulfilled ?invalid)) = Fulfilled ()
      \<and> run_effects (fst (handleSubmit sample_runtime (editing ada) (Fulfilled ?invalid))) (editing ada)
          = (editing ada)\<lparr>submitError := Some ''Email is invalid''\<rparr>"
    by (simp add: fails_with_def editing_def)
  from submit_failure_preserves [OF filled null,
      where r = ?null and body = JNull and rt = sample_runtime
        and thrown = "JError (nullish_read sample_runtime JNull)"]
  have 2: "fails_with sample_runtime (editing ada) (Fulfilled ?null) (nullish_read sample_runtime JNull)"
    by simp
  from submit_failure_preserves [OF filled empty,
      where r = ?empty and body = "JObj []" and v = JUndefined and rt = sample_runtime]
  have 3: "fails_with sample_runtime (editing ada) (Fulfilled ?empty) ''Failed to add customer''"
    by simp
  from submit_failure_preserves [OF filled rejected, where e = "JError []" and rt = sample_runtime]
  have 4: "fails_with sample_runtime (editing ada) (Rejected (JError [])) []"
    by simp
  from submit_failure_preserves [OF filled rejected, where e = "JStr ''offline''" and rt = sample_runtime]
  have 5: "fails_with sample_runtime (editing ada) (Rejected (JStr ''offline''))
      ''An unexpected error occurred''"
    by simp
  from submit_failure_preserves [OF filled stuck, where r = ?stuck and rt = sample_runtime]
  have 6: "snd (handleSubmit sample_runtime (editing ada) (Fulfilled ?stuck)) = Pending"
    by simp
  from 1 2 3 4 5 6 show ?thesis by blast
qed

subsection \<open>When the list is invalidated (C6)\<close>

text \<open>
  C6. In every run of \<open>handleSubmit\<close>, a call of \<open>mutate\<close> is preceded by the create request
  and then by the arrival of its response, and that response is ok; when the create call
  failed, or never settles, \<open>mutate\<close> is not called at all.
\<close>

theorem invalidation_only_after_success:
  "(fst (handleSubmit rt st net) = pre @ Mutate key # post \<longrightarrow>
      (\<exists>r. net = Fulfilled r \<and> response_ok r
         \<and> (\<exists>before after. pre = before @ FetchResolved r # after
              \<and> Fetch ''/api/customers'' ''POST'' (newCustomer st) \<in> set before)))
   \<and> (create_failed net \<or> net = Pending \<longrightarrow> (\<forall>k. Mutate k \<notin> set (fst (handleSubmit rt st net))))"
proof (cases "fully_filled (newCustomer st)")
  case False
  then have "fst (handleSubmit rt st net)
      = [SetSubmitError None, SetSubmitError (Some ''Please fill in all required fields'')]"
    by (auto simp add: handleSubmit_def fully_filled_def)
  then show ?thesis
    by (auto simp add: Cons_eq_append_conv)
next
  case filled: True
  show ?thesis
  proof (cases net)
    case (Fulfilled r)
    show ?thesis
    proof (cases "response_ok r")
      case True
      have es: "fst (handleSubmit rt st net) =
           [SetSubmitError None, SetIsSubmitting True,
            Fetch ''/api/customers'' ''POST'' (newCustomer st)] @
           FetchResolved r # [SetNewCustomer \<lparr>firstName = [], lastName = [], email = []\<rparr>,
            Mutate ''/api/customers'', SetIsModalOpen False, SetIsSubmitting False]"
        using filled Fulfilled True
        by (simp add: handleSubmit_filled try_block_ok finally_block_def)
      have "pre = [SetSubmitError None, SetIsSubmitting True,
            Fetch ''/api/customers'' ''POST'' (newCustomer st)] @
           FetchResolved r # [SetNewCustomer \<lparr>firstName = [], lastName = [], email = []\<rparr>]"
        if "fst (handleSubmit rt st net) = pre @ Mutate key # post"
        using that unfolding es by (auto simp add: Cons_eq_append_conv)
      then have "\<exists>before after. pre = before @ FetchResolved r # after
          \<and> Fetch ''/api/customers'' ''POST'' (newCustomer st) \<in> set before"
        if "fst (handleSubmit rt st net) = pre @ Mutate key # post"
        using that
        by (intro exI [of _ "[SetSubmitError None, SetIsSubmitting True,
            Fetch ''/api/customers'' ''POST'' (newCustomer st)]"]
            exI [of _ "[SetNewCustomer \<lparr>firstName = [], lastName = [], email = []\<rparr>]"]) simp
      then show ?thesis
        using Fulfilled True by simp
    next
      case False
      obtain es p where tb: "try_block rt (newCustomer st) net = (es, p)"
        by (cases "try_block rt (newCustomer st) net")
      with try_block_not_ok [OF False, of rt "newCustomer st"] Fulfilled
      have es: "es = [SetIsSubmitting True, Fetch ''/api/customers'' ''POST'' (newCustomer st),
          FetchResolved r]" and p: "p \<noteq> Fulfilled ()"
        by simp_all
      have "\<forall>k. Mutate k \<notin> set (fst (handleSubmit rt st net))"
        using filled tb es p
        by (cases p) (auto simp add: handleSubmit_filled finally_block_def catch_block_no_Mutate)
      then show ?thesis
        by auto
    qed
  next
    case (Rejected e)
    have "\<forall>k. Mutate k \<notin> set (fst (handleSubmit rt st net))"
      using filled Rejected
      by (auto simp add: handleSubmit_filled try_block_Rejected finally_block_def catch_block_no_Mutate)
    then show ?thesis by auto
  next
    case Pending
    have "\<forall>k. Mutate k \<notin> set (fst (handleSubmit rt st net))"
      using filled Pending
      by (auto simp add: handleSubmit_filled try_block_Pending)
    then show ?thesis by auto
  qed
qed

theorem invalidation_only_after_success_witness:
  "fst (handleSubmit sample_runtime (editing ada) (Fulfilled \<lparr>status = 201, json = Pending\<rparr>))
     = [SetSubmitError None, SetIsSubmitting True, Fetch ''/api/customers'' ''POST'' ada,
        FetchResolved \<lparr>status = 201, json = Pending\<rparr>,
        SetNewCustomer \<lparr>firstName = [], lastName = [], email = []\<rparr>]
       @ Mutate ''/api/customers'' # [SetIsModalOpen False, SetIsSubmitting False]
   \<and> response_ok \<lparr>status = 201, json = Pending\<rparr>
   \<and> (\<exists>before after.
         [SetSubmitError None, SetIsSubmitting True, Fetch ''/api/customers'' ''POST'' ada,
          FetchResolved \<lparr>status = 201, json = Pending\<rparr>,
          SetNewCustomer \<lparr>firstName = [], lastName = [], email = []\<rparr>]
           = before @ FetchResolved \<lparr>status = 201, json = Pending\<rparr> # after
         \<and> Fetch ''/api/customers'' ''POST'' ada \<in> set before)
   \<and> Mutate ''/api/customers'' \<notin> set (fst (handleSubmit sample_runtime (editing ada)
        (Rejected (JError ''Failed to fetch''))))
   \<and> Mutate ''/api/customers'' \<notin> set (fst (handleSubmit sample_runtime (editing ada) Pending))"
proof -
  let ?r = "\<lparr>status = 201, json = Pending\<rparr>"
  let ?pre = "[SetSubmitError None, SetIsSubmitting True, Fetch ''/api/customers'' ''POST'' ada,
      FetchResolved ?r, SetNewCustomer \<lparr>firstName = [], lastName = [], email = []\<rparr>]"
  let ?post = "[SetIsModalOpen False, SetIsSubmitting False]"
  have run: "fst (handleSubmit sample_runtime (editing ada) (Fulfilled ?r))
      = ?pre @ Mutate ''/api/customers'' # ?post"
    by (simp add: handleSubmit_def try_block_def finally_block_def editing_def ada_def
        response_ok_def)
  have draft: "newCustomer (editing ada) = ada"
    by (simp add: editing_def)
  from invalidation_only_after_success
    [of sample_runtime "editing ada" "Fulfilled ?r" ?pre "''/api/customers''" ?post] run
  have ordered: "response_ok ?r \<and> (\<exists>before after. ?pre = before @ FetchResolved ?r # after
      \<and> Fetch ''/api/customers'' ''POST'' ada \<in> set before)"
    unfolding draft by blast
  from invalidation_only_after_success
    [of sample_runtime "editing ada" "Rejected (JError ''Failed to fetch'')"]
  have rejected: "Mutate ''/api/customers''
      \<notin> set (fst (handleSubmit sample_runtime (editing ada) (Rejected (JError ''Failed to fetch''))))"
    by simp
  from invalidation_only_after_success [of sample_runtime "editing ada" Pending]
  have pending: "Mutate ''/api/customers''
      \<notin> set (fst (handleSubmit sample_runtime (editing ada) Pending))"
    by simp
  from run ordered rejected pending show ?thesis
    by blast
qed

subsection \<open>The submitting flag is released (C7)\<close>

text \<open>
  C7. For every run of \<open>handleSubmit\<close> that called \<open>setIsSubmitting(true)\<close>: when it returns,
  its last effect is \<open>setIsSubmitting(false)\<close> and the flag is false; and it does return
  whenever the create call settles (resolves or rejects) and, for a response that is not ok,
  the reading of its body settles.
\<close>

theorem submitting_flag_released:
  assumes entered: "SetIsSubmitting True \<in> set (fst (handleSubmit rt st net))"
  shows "(snd (handleSubmit rt st net) = Fulfilled () \<longrightarrow>
            isSubmitting (run_effects (fst (handleSubmit rt st net)) st) = False
          \<and> last (fst (handleSubmit rt st net)) = SetIsSubmitting False)
    \<and> (net \<noteq> Pending \<and> (\<forall>r. net = Fulfilled r \<and> \<not> response_ok r \<longrightarrow> json r \<noteq> Pending)
          \<longrightarrow> snd (handleSubmit rt st net) = Fulfilled ())"
proof -
  have filled: "fully_filled (newCustomer st)"
    using entered by (auto simp add: handleSubmit_def fully_filled_def split: if_splits)
  obtain es p where tb: "try_block rt (newCustomer st) net = (es, p)"
    by (cases "try_block rt (newCustomer st) net")
  have released: "isSubmitting (run_effects (fst (handleSubmit rt st net)) st) = False
      \<and> last (fst (handleSubmit rt st net)) = SetIsSubmitting False"
    if "snd (handleSubmit rt st net) = Fulfilled ()"
  proof (cases p)
    case (Fulfilled u)
    with filled tb show ?thesis
      by (simp add: handleSubmit_filled finally_block_def run_effects_def)
  next
    case (Rejected x)
    with filled tb show ?thesis
      by (simp add: handleSubmit_filled finally_block_def run_effects_def)
  next
    case Pending
    with filled tb that show ?thesis
      by (simp add: handleSubmit_filled)
  qed
  have settles: "snd (handleSubmit rt st net) = Fulfilled ()"
    if "net \<noteq> Pending" "\<forall>r. net = Fulfilled r \<and> \<not> response_ok r \<longrightarrow> json r \<noteq> Pending"
  proof -
    have p: "p = snd (try_block rt (newCustomer st) net)"
      using tb by simp
    have "p \<noteq> Pending"
    proof (cases net)
      case (Fulfilled r)
      show ?thesis
      proof (cases "response_ok r")
        case True
        with Fulfilled show ?thesis unfolding p by (simp add: try_block_ok)
      next
        case False
        with that Fulfilled have "json r \<noteq> Pending" by simp
        then show ?thesis
        proof (cases "json r")
          case (Fulfilled body)
          from try_block_json_Fulfilled [OF False this, of rt "newCustomer st"] \<open>net = Fulfilled r\<close>
          show ?thesis unfolding p by auto
        next
          case (Rejected x)
          from try_block_json_Rejected [OF False this, of rt "newCustomer st"] \<open>net = Fulfilled r\<close>
          show ?thesis unfolding p by simp
        qed simp
      qed
    next
      case (Rejected e)
      then show ?thesis unfolding p by (simp add: try_block_Rejected)
    next
      case Pending
      with that show ?thesis by simp
    qed
    with filled tb show ?thesis
      by (cases p) (simp_all add: handleSubmit_filled)
  qed
  from released settles show ?thesis by blast
qed

theorem submitting_flag_released_witness:
  "SetIsSubmitting True \<in> set (fst (handleSubmit sample_runtime (editing ada) (Rejected (JError ''Failed to fetch''))))
   \<and> snd (handleSubmit sample_runtime (editing ada) (Rejected (JError ''Failed to fetch''))) = Fulfilled ()
   \<and> isSubmitting (run_effects
        (fst (handleSubmit sample_runtime (editing ada) (Rejected (JError ''Failed to fetch''))))
        (editing ada)) = False
   \<and> last (fst (handleSubmit sample_runtime (editing ada) (Rejected (JError ''Failed to fetch''))))
       = SetIsSubmitting False"
proof -
  have entered: "SetIsSubmitting True
      \<in> set (fst (handleSubmit sample_runtime (editing ada) (Rejected (JError ''Failed to fetch''))))"
    by (simp add: handleSubmit_def try_block_def editing_def ada_def)
  from submitting_flag_released [OF entered] entered show ?thesis
    by simp
qed

subsection \<open>A failed list fetch (C8)\<close>

text \<open>
  C8. When \<open>GET /api/customers\<close> answers 500 with the body
  \<open>{code: "internal", message: "boom"}\<close>, \<open>fetcher\<close> rejects with that body, the cache is
  in \<open>Error\<close> of that body, and the banner's content is the string "boom".
\<close>

theorem list_error_surfaces:
  "fetcher (Fulfilled \<lparr>status = 500,
       json = Fulfilled (JObj [(''code'', JStr ''internal''), (''message'', JStr ''boom'')])\<rparr>)
     = Rejected (JObj [(''code'', JStr ''internal''), (''message'', JStr ''boom'')])
   \<and> directory_cache (fetcher (Fulfilled \<lparr>status = 500,
       json = Fulfilled (JObj [(''code'', JStr ''internal''), (''message'', JStr ''boom'')])\<rparr>))
     = Error (JObj [(''code'', JStr ''internal''), (''message'', JStr ''boom'')])
   \<and> error_banner rt (cache_error (directory_cache (fetcher (Fulfilled \<lparr>status = 500,
       json = Fulfilled (JObj [(''code'', JStr ''internal''), (''message'', JStr ''boom'')])\<rparr>))))
     = Banner (JStr ''boom'')"
  by (simp add: fetcher_def response_ok_def directory_cache_def error_banner_def)

subsection \<open>Editing a field (C9)\<close>

text \<open>
  C9. For \<open>name\<close> one of \<open>firstName\<close>, \<open>lastName\<close>, \<open>email\<close>, \<open>handleInputChange\<close> performs
  one effect, a \<open>setNewCustomer\<close>: afterwards the named field of the draft is the value
  typed, the other two fields are as before, and the dialog's visibility, the submitting
  flag and the submission error are unchanged (nothing is validated).
\<close>

theorem input_change_sets_one_field:
  assumes "name \<in> {''firstName'', ''lastName'', ''email''}"
  shows "(\<exists>c. handleInputChange st name val = [SetNewCustomer c])
    \<and> (name = ''firstName'' \<longrightarrow>
          firstName (newCustomer (run_effects (handleInputChange st name val) st)) = val
        \<and> lastName (newCustomer (run_effects (handleInputChange st name val) st)) = lastName (newCustomer st)
        \<and> email (newCustomer (run_effects (handleInputChange st name val) st)) = email (newCustomer st))
    \<and> (name = ''lastName'' \<longrightarrow>
          lastName (newCustomer (run_effects (handleInputChange st name val) st)) = val
        \<and> firstName (newCustomer (run_effects (handleInputChange st name val) st)) = firstName (newCustomer st)
        \<and> email (newCustomer (run_effects (handleInputChange st name val) st)) = email (newCustomer st))
    \<and> (name = ''email'' \<longrightarrow>
          email (newCustomer (run_effects (handleInputChange st name val) st)) = val
        \<and> firstName (newCustomer (run_effects (handleInputChange st name val) st)) = firstName (newCustomer st)
        \<and> lastName (newCustomer (run_effects (handleInputChange st name val) st)) = lastName (newCustomer st))
    \<and> isModalOpen (run_effects (handleInputChange st name val) st) = isModalOpen st
    \<and> isSubmitting (run_effects (handleInputChange st name val) st) = isSubmitting st
    \<and> submitError (run_effects (handleInputChange st name val) st) = submitError st"
  using assms by (auto simp add: handleInputChange_def run_effects_def)

theorem input_change_sets_one_field_witness:
  "newCustomer (run_effects (handleInputChange (editing ada) ''firstName'' ''Grace'') (editing ada))
     = \<lparr>firstName = ''Grace'', lastName = ''Lovelace'', email = ''ada@example.com''\<rparr>
   \<and> newCustomer (run_effects (handleInputChange (editing ada) ''lastName'' ''Hopper'') (editing ada))
     = \<lparr>firstName = ''Ada'', lastName = ''Hopper'', email = ''ada@example.com''\<rparr>
   \<and> newCustomer (run_effects (handleInputChange (editing ada) ''email'' []) (editing ada))
     = \<lparr>firstName = ''Ada'', lastName = ''Lovelace'', email = []\<rparr>
   \<and> submitError (run_effects (handleInputChange (editing ada) ''email'' []) (editing ada)) = None
   \<and> isModalOpen (run_effects (handleInputChange (editing ada) ''email'' []) (editing ada))"
  using input_change_sets_one_field [of "''firstName''" "editing ada" "''Grace''"]
    input_change_sets_one_field [of "''lastName''" "editing ada" "''Hopper''"]
    input_change_sets_one_field [of "''email''" "editing ada" "[]"]
  by (simp add: editing_def ada_def)

end
